theory Spec2Isabelle
  imports Complex_Main "HOL-Library.AList"
begin

section \<open>Values, exceptions and tables\<close>

text \<open>
  The lineage layer of \<^verbatim>\<open>pipeline_functions.py\<close> never looks inside the business
  columns of a table; it reads the \<^verbatim>\<open>row_id\<close> column, uses its cells as dictionary
  keys and stores them in error records. A cell is a Python string, an integer, \<^verbatim>\<open>None\<close>
  or a list of cells (the \<^verbatim>\<open>source_row_ids\<close> column of the aggregation holds lists).
  A list cannot be hashed, so using one as a dictionary key raises \<^verbatim>\<open>TypeError\<close>.
\<close>

datatype cell = Str string | Num int | NoneC | ListC "cell list"

fun hashable :: "cell \<Rightarrow> bool" where
  "hashable (ListC xs) = False"
| "hashable (Str s) = True"
| "hashable (Num n) = True"
| "hashable NoneC = True"

text \<open>
  Exceptions are values. \<^verbatim>\<open>ValidationError\<close> is the class of
  \<^verbatim>\<open>validation_function.py\<close>: it carries the mapping field \<open>\<rightarrow>\<close> message in
  \<^verbatim>\<open>errors\<close>, and its \<^verbatim>\<open>__str__\<close> is \<^verbatim>\<open>f"Validation failed: {self.errors}"\<close>.
  The second component \<open>vtext\<close> is the interpreter's rendering of the mapping (what
  \<^verbatim>\<open>str(self.errors)\<close> gives), which no code of the repository computes. Every other
  exception is its class name and the message \<^verbatim>\<open>str(e)\<close> returns. Only instances of
  \<^verbatim>\<open>Exception\<close> are modelled, the ones \<^verbatim>\<open>except Exception\<close> catches.
  \<^verbatim>\<open>pipeline_functions.py\<close> uses the name \<^verbatim>\<open>ValidationError\<close> without importing it;
  the model reads the name as the class the repository defines.
\<close>

datatype exn =
    ValidationError (verrors: "(string \<times> string) list") (vtext: string)
  | PyError (cls: string) (msg: string)

fun str_exc :: "exn \<Rightarrow> string" where
  "str_exc (ValidationError errs txt) = ''Validation failed: '' @ txt"
| "str_exc (PyError c m) = m"

fun is_validation :: "exn \<Rightarrow> bool" where
  "is_validation (ValidationError errs txt) = True"
| "is_validation (PyError c m) = False"

definition quoted :: "string \<Rightarrow> string" where
  "quoted s = CHR 0x27 # s @ [CHR 0x27]"

definition unhashable_list :: exn where
  "unhashable_list = PyError ''TypeError'' (''unhashable type: '' @ quoted ''list'')"

definition name_error :: "string \<Rightarrow> exn" where
  "name_error n = PyError ''NameError'' (''name '' @ quoted n @ '' is not defined'')"

text \<open>
  A pandas table: the length of its index and its columns in order, each a name with its
  cells. \<^verbatim>\<open>len(df)\<close> is \<open>nrows\<close>; \<^verbatim>\<open>df[c]\<close> raises \<^verbatim>\<open>KeyError\<close> when there is no
  column \<open>c\<close>; \<^verbatim>\<open>df[c] = values\<close> replaces the column where it stands or appends it
  after the last one. The source only ever assigns as many values as the table has rows.
  A row handed to a row-level function is a labelled series: labels with their cells.
\<close>

record dataframe =
  nrows :: nat
  columns :: "(string \<times> cell list) list"

type_synonym row = "(string \<times> cell) list"

definition df_getitem :: "dataframe \<Rightarrow> string \<Rightarrow> exn + cell list" where
  "df_getitem df c =
     (case map_of (columns df) c of
        None \<Rightarrow> Inl (PyError ''KeyError'' (quoted c))
      | Some cells \<Rightarrow> Inr cells)"

definition df_setitem :: "string \<Rightarrow> cell list \<Rightarrow> dataframe \<Rightarrow> dataframe" where
  "df_setitem c cells df = df\<lparr>columns := AList.update c cells (columns df)\<rparr>"

section \<open>MetadataManager\<close>

text \<open>
  The manager holds \<^verbatim>\<open>lineage\<close> (a \<^verbatim>\<open>defaultdict(list)\<close>), \<^verbatim>\<open>errors\<close> and
  \<^verbatim>\<open>logs\<close>. Its methods mutate it; the model passes the manager in and returns it.
  The lines the methods also send to the \<^verbatim>\<open>logging\<close> module are not part of the state
  and are left out. Clock readings of \<^verbatim>\<open>time.time()\<close> are arguments.
\<close>

record error_record =
  e_row_id :: cell
  e_transformation :: string
  e_error :: string

record log_record =
  l_transformation :: string
  l_time :: real
  l_details :: "(string \<times> cell) list"

type_synonym ledger = "cell \<rightharpoonup> string list"

record metadata_manager =
  lineage :: ledger
  errors :: "error_record list"
  logs :: "log_record list"

definition MetadataManager :: metadata_manager where
  "MetadataManager = \<lparr>lineage = Map.empty, errors = [], logs = []\<rparr>"

text \<open>
  The three accesses to the \<^verbatim>\<open>defaultdict\<close> that the source uses. Subscripting
  \<^verbatim>\<open>d[k]\<close> stores a fresh empty list under a missing key before returning it;
  \<^verbatim>\<open>d[k] = v\<close> stores; \<^verbatim>\<open>d.get(k, default)\<close> returns the default for a missing key
  and stores nothing. Each hashes the key first.
\<close>

definition dd_getitem :: "cell \<Rightarrow> ledger \<Rightarrow> (exn + string list) \<times> ledger" where
  "dd_getitem k m =
     (if \<not> hashable k then (Inl unhashable_list, m)
      else case m k of
             Some l \<Rightarrow> (Inr l, m)
           | None \<Rightarrow> (Inr [], m(k \<mapsto> [])))"

definition dd_setitem :: "cell \<Rightarrow> string list \<Rightarrow> ledger \<Rightarrow> exn option \<times> ledger" where
  "dd_setitem k v m =
     (if \<not> hashable k then (Some unhashable_list, m) else (None, m(k \<mapsto> v)))"

definition dd_get :: "cell \<Rightarrow> string list \<Rightarrow> ledger \<Rightarrow> (exn + string list) \<times> ledger" where
  "dd_get k dflt m =
     (if \<not> hashable k then (Inl unhashable_list, m)
      else case m k of
             Some l \<Rightarrow> (Inr l, m)
           | None \<Rightarrow> (Inr dflt, m))"

text \<open>\<^verbatim>\<open>for row_id in df["row_id"]: self.lineage[row_id] = []\<close>\<close>

fun initialize_loop :: "cell list \<Rightarrow> ledger \<Rightarrow> exn option \<times> ledger" where
  "initialize_loop [] m = (None, m)"
| "initialize_loop (k # ks) m =
     (case dd_setitem k [] m of
        (Some e, m') \<Rightarrow> (Some e, m')
      | (None, m') \<Rightarrow> initialize_loop ks m')"

definition initialize :: "dataframe \<Rightarrow> metadata_manager \<Rightarrow> exn option \<times> metadata_manager" where
  "initialize df s =
     (case df_getitem df ''row_id'' of
        Inl e \<Rightarrow> (Some e, s)
      | Inr ids \<Rightarrow>
          (case initialize_loop ids (lineage s) of
             (r, m) \<Rightarrow> (r, s\<lparr>lineage := m\<rparr>)))"

text \<open>\<^verbatim>\<open>for row_id in df["row_id"]: self.lineage[row_id].append(transformation)\<close>\<close>

fun append_loop :: "cell list \<Rightarrow> string \<Rightarrow> ledger \<Rightarrow> exn option \<times> ledger" where
  "append_loop [] t m = (None, m)"
| "append_loop (k # ks) t m =
     (case dd_getitem k m of
        (Inl e, m') \<Rightarrow> (Some e, m')
      | (Inr l, m') \<Rightarrow> append_loop ks t (m'(k \<mapsto> l @ [t])))"

text \<open>\<^verbatim>\<open>for row_id in new_rows: self.lineage[row_id] = [transformation]\<close>\<close>

fun reset_loop :: "cell list \<Rightarrow> string \<Rightarrow> ledger \<Rightarrow> exn option \<times> ledger" where
  "reset_loop [] t m = (None, m)"
| "reset_loop (k # ks) t m =
     (case dd_setitem k [t] m of
        (Some e, m') \<Rightarrow> (Some e, m')
      | (None, m') \<Rightarrow> reset_loop ks t m')"

text \<open>
  \<^verbatim>\<open>update_lineage(df, transformation, new_rows=None)\<close>: the second loop runs when
  \<^verbatim>\<open>new_rows\<close> is a non-empty list.
\<close>

definition update_lineage ::
  "dataframe \<Rightarrow> string \<Rightarrow> cell list option \<Rightarrow> metadata_manager \<Rightarrow> exn option \<times> metadata_manager"
where
  "update_lineage df t new_rows s =
     (case df_getitem df ''row_id'' of
        Inl e \<Rightarrow> (Some e, s)
      | Inr ids \<Rightarrow>
          (case append_loop ids t (lineage s) of
             (Some e, m) \<Rightarrow> (Some e, s\<lparr>lineage := m\<rparr>)
           | (None, m) \<Rightarrow>
               (case new_rows of
                  None \<Rightarrow> (None, s\<lparr>lineage := m\<rparr>)
                | Some [] \<Rightarrow> (None, s\<lparr>lineage := m\<rparr>)
                | Some (k # ks) \<Rightarrow>
                    (case reset_loop (k # ks) t m of
                       (r, m') \<Rightarrow> (r, s\<lparr>lineage := m'\<rparr>)))))"

text \<open>
  \<^verbatim>\<open>log_transformation\<close>: \<open>now\<close> is the reading of \<^verbatim>\<open>time.time()\<close> inside the
  method; \<^verbatim>\<open>details or {}\<close> is the empty mapping for \<^verbatim>\<open>None\<close> and for an empty one.
\<close>

definition log_transformation ::
  "string \<Rightarrow> real \<Rightarrow> real \<Rightarrow> (string \<times> cell) list option \<Rightarrow> metadata_manager \<Rightarrow> metadata_manager"
where
  "log_transformation t start_time now details s =
     s\<lparr>logs := logs s @
        [\<lparr>l_transformation = t, l_time = now - start_time,
          l_details = (case details of None \<Rightarrow> [] | Some d \<Rightarrow> d)\<rparr>]\<rparr>"

definition log_error :: "cell \<Rightarrow> string \<Rightarrow> exn \<Rightarrow> metadata_manager \<Rightarrow> metadata_manager" where
  "log_error rid t e s =
     s\<lparr>errors := errors s @
        [\<lparr>e_row_id = rid, e_transformation = t, e_error = str_exc e\<rparr>]\<rparr>"

text \<open>The queries return a value and, like every method here, the manager they leave behind.\<close>

definition get_lineage :: "cell \<Rightarrow> metadata_manager \<Rightarrow> (exn + string list) \<times> metadata_manager" where
  "get_lineage rid s =
     (case dd_get rid [] (lineage s) of (r, m) \<Rightarrow> (r, s\<lparr>lineage := m\<rparr>))"

definition get_errors :: "metadata_manager \<Rightarrow> error_record list \<times> metadata_manager" where
  "get_errors s = (errors s, s)"

definition get_logs :: "metadata_manager \<Rightarrow> log_record list \<times> metadata_manager" where
  "get_logs s = (logs s, s)"

section \<open>Decorators\<close>

text \<open>
  \<^verbatim>\<open>handle_row_errors(on_error, column_name, fallback_value)(func)(row)\<close>. The
  callback \<open>on_error\<close> is optional (\<^verbatim>\<open>None\<close> by default) and is any callable on the row
  identifier, a label and the exception; it works on whatever state \<open>'s\<close> it is bound to
  and may itself raise. \<open>func_name\<close> is \<^verbatim>\<open>func.__name__\<close>. The row-level function is a
  function of the row alone.

  The handler of \<^verbatim>\<open>ValidationError\<close> builds
  \<^verbatim>\<open>{f"{context} -> {key}": msg for key, msg in e.errors.items()}\<close>. No assignment,
  parameter or import of the repository binds the name \<^verbatim>\<open>context\<close>, so evaluating the
  key of the first item raises \<^verbatim>\<open>NameError\<close>; only an empty mapping gets through, and
  then a new \<^verbatim>\<open>ValidationError({})\<close> is raised. An exception raised inside a handler is
  not offered to the handlers that follow it.

  The handler of every other exception calls \<open>on_error\<close> when there is one and the row
  has the label \<^verbatim>\<open>row_id\<close>, and then returns the fallback value in all cases.
\<close>

fun str_option :: "string option \<Rightarrow> string" where
  "str_option None = ''None''"
| "str_option (Some c) = c"

definition row_label :: "string \<Rightarrow> string option \<Rightarrow> string" where
  "row_label func_name column_name =
     func_name @ '' (column: '' @ str_option column_name @ '')''"

definition handle_row_errors ::
  "(cell \<Rightarrow> string \<Rightarrow> exn \<Rightarrow> 's \<Rightarrow> exn option \<times> 's) option \<Rightarrow> string option \<Rightarrow> 'v \<Rightarrow>
   string \<Rightarrow> (row \<Rightarrow> exn + 'v) \<Rightarrow> row \<Rightarrow> 's \<Rightarrow> (exn + 'v) \<times> 's"
where
  "handle_row_errors on_error column_name fallback_value func_name func row s =
     (case func row of
        Inr v \<Rightarrow> (Inr v, s)
      | Inl (ValidationError errs txt) \<Rightarrow>
          (case errs of
             [] \<Rightarrow> (Inl (ValidationError [] ''{}''), s)
           | item # items \<Rightarrow> (Inl (name_error ''context''), s))
      | Inl (PyError c m) \<Rightarrow>
          (case on_error of
             None \<Rightarrow> (Inr fallback_value, s)
           | Some callback \<Rightarrow>
               (case map_of row ''row_id'' of
                  None \<Rightarrow> (Inr fallback_value, s)
                | Some rid \<Rightarrow>
                    (case callback rid (row_label func_name column_name) (PyError c m) s of
                       (Some e, s') \<Rightarrow> (Inl e, s')
                     | (None, s') \<Rightarrow> (Inr fallback_value, s')))))"

text \<open>The bound method \<^verbatim>\<open>metadata_manager.log_error\<close> as a callback.\<close>

definition log_error_callback ::
  "cell \<Rightarrow> string \<Rightarrow> exn \<Rightarrow> metadata_manager \<Rightarrow> exn option \<times> metadata_manager"
where
  "log_error_callback rid t e s = (None, log_error rid t e s)"


text \<open>
  \<^verbatim>\<open>manage_metadata(metadata_manager)(func)(df)\<close>. A dataset-level transformation may
  use the manager itself (row-level isolation logs through it), so it takes and returns
  it. \<open>transformation_name\<close> is \<^verbatim>\<open>func.__name__\<close>; \<open>start_time\<close> and \<open>now\<close> are the
  two clock readings. The \<^verbatim>\<open>try\<close> block covers the call, the lineage update and the
  log entry.
\<close>

type_synonym transformation =
  "dataframe \<Rightarrow> metadata_manager \<Rightarrow> (exn + dataframe) \<times> metadata_manager"

definition manage_metadata :: "string \<Rightarrow> real \<Rightarrow> real \<Rightarrow> transformation \<Rightarrow> transformation" where
  "manage_metadata transformation_name start_time now func df s =
     (case func df s of
        (Inl e, s1) \<Rightarrow> (Inl e, log_error (Str ''global'') transformation_name e s1)
      | (Inr result, s1) \<Rightarrow>
          (case update_lineage result transformation_name None s1 of
             (Some e, s2) \<Rightarrow> (Inl e, log_error (Str ''global'') transformation_name e s2)
           | (None, s2) \<Rightarrow>
               (Inr result,
                log_transformation transformation_name start_time now
                  (Some [(''row_count'', Num (int (nrows result)))]) s2)))"

section \<open>Pipeline components\<close>

text \<open>
  \<^verbatim>\<open>[str(uuid.uuid4()) for _ in range(n)]\<close>: \<open>uuid4 i\<close> is the text of the identifier
  the \<open>i\<close>-th call returns.
\<close>

definition mint_ids :: "(nat \<Rightarrow> string) \<Rightarrow> nat \<Rightarrow> cell list" where
  "mint_ids uuid4 n = map (\<lambda>i. Str (uuid4 i)) [0..<n]"

text \<open>\<^verbatim>\<open>add_row_id\<close> on values: the table it returns.\<close>

definition add_row_id :: "(nat \<Rightarrow> string) \<Rightarrow> dataframe \<Rightarrow> dataframe" where
  "add_row_id uuid4 df = df_setitem ''row_id'' (mint_ids uuid4 (nrows df)) df"

text \<open>
  \<^verbatim>\<open>add_row_id\<close> on objects. Tables live in a store and are passed by address;
  \<^verbatim>\<open>df.copy()\<close> allocates a new table with the same contents, and the column assignment
  mutates the table at the address it is given. The function rebinds its local name to
  the copy before it assigns.
\<close>

type_synonym store = "dataframe list"

definition copy_obj :: "nat \<Rightarrow> store \<Rightarrow> nat \<times> store" where
  "copy_obj a h = (length h, h @ [h ! a])"

definition setitem_obj :: "nat \<Rightarrow> string \<Rightarrow> cell list \<Rightarrow> store \<Rightarrow> store" where
  "setitem_obj a c cells h = h[a := df_setitem c cells (h ! a)]"

definition add_row_id_obj :: "(nat \<Rightarrow> string) \<Rightarrow> nat \<Rightarrow> store \<Rightarrow> nat \<times> store" where
  "add_row_id_obj uuid4 a h =
     (case copy_obj a h of
        (a', h') \<Rightarrow> (a', setitem_obj a' ''row_id'' (mint_ids uuid4 (nrows (h' ! a'))) h'))"

text \<open>
  \<^verbatim>\<open>aggregate_with_details\<close>: grouping is the work of pandas. \<open>groupby_agg\<close> stands for
  \<^verbatim>\<open>df.groupby(group_by_cols).agg(agg_funcs).reset_index()\<close>, \<open>groupby_row_ids\<close> for
  the per-group lists of \<^verbatim>\<open>row_id\<close> and \<open>groupby_size\<close> for the group sizes; each may
  raise. The function mints one new identifier per group.
\<close>

record engine =
  groupby_agg :: "dataframe \<Rightarrow> exn + dataframe"
  groupby_row_ids :: "dataframe \<Rightarrow> exn + cell list"
  groupby_size :: "dataframe \<Rightarrow> exn + cell list"

definition aggregate_body :: "engine \<Rightarrow> (nat \<Rightarrow> string) \<Rightarrow> dataframe \<Rightarrow> exn + dataframe" where
  "aggregate_body pd uuid4 df =
     (case groupby_agg pd df of
        Inl e \<Rightarrow> Inl e
      | Inr grouped \<Rightarrow>
          (case groupby_row_ids pd df of
             Inl e \<Rightarrow> Inl e
           | Inr sources \<Rightarrow>
               (case groupby_size pd df of
                  Inl e \<Rightarrow> Inl e
                | Inr sizes \<Rightarrow>
                    Inr (df_setitem ''contribution_counts'' sizes
                          (df_setitem ''source_row_ids'' sources
                            (df_setitem ''row_id'' (mint_ids uuid4 (nrows grouped)) grouped))))))"

definition aggregate_with_details ::
  "engine \<Rightarrow> (nat \<Rightarrow> string) \<Rightarrow> real \<Rightarrow> real \<Rightarrow> transformation"
where
  "aggregate_with_details pd uuid4 start_time now =
     manage_metadata ''aggregate_with_details'' start_time now
       (\<lambda>df s. (aggregate_body pd uuid4 df, s))"

section \<open>Pipeline builder\<close>

text \<open>
  \<^verbatim>\<open>for transformation in pipeline_specs: df = transformation(df)\<close>, and the closure
  \<^verbatim>\<open>pipeline\<close> that \<^verbatim>\<open>build_pipeline\<close> returns.
\<close>

fun pipeline_loop :: "transformation list \<Rightarrow> transformation" where
  "pipeline_loop [] df s = (Inr df, s)"
| "pipeline_loop (t # ts) df s =
     (case t df s of
        (Inl e, s') \<Rightarrow> (Inl e, s')
      | (Inr df', s') \<Rightarrow> pipeline_loop ts df' s')"

definition build_pipeline :: "transformation list \<Rightarrow> (nat \<Rightarrow> string) \<Rightarrow> transformation" where
  "build_pipeline pipeline_specs uuid4 df s =
     (case initialize (add_row_id uuid4 df) s of
        (Some e, s0) \<Rightarrow> (Inl e, s0)
      | (None, s0) \<Rightarrow> pipeline_loop pipeline_specs (add_row_id uuid4 df) s0)"

section \<open>Sample data\<close>

text \<open>Concrete inputs on which the theorems below are exercised.\<close>

definition sample_frame :: dataframe where
  "sample_frame =
     \<lparr>nrows = 2,
      columns = [(''start_value'', [Num 100, Num 0]), (''row_id'', [Str ''r1'', Str ''r2''])]\<rparr>"

definition always_fails :: transformation where
  "always_fails df s = (Inl (PyError ''RuntimeError'' ''boom''), s)"


definition sample_validate :: "row \<Rightarrow> exn + cell" where
  "sample_validate r =
     (case map_of r ''age'' of
        None \<Rightarrow>
          Inl (ValidationError [(''age'', ''Missing key: age'')]
                (''{'' @ quoted ''age'' @ '': '' @ quoted ''Missing key: age'' @ ''}''))
      | Some v \<Rightarrow> Inr v)"

definition row_a :: row where
  "row_a = [(''row_id'', Str ''r1''), (''start_value'', Num 100), (''end_value'', Num 110)]"



definition keep :: transformation where
  "keep df s = (Inr df, s)"

definition loaded_ledger :: metadata_manager where
  "loaded_ledger =
     \<lparr>lineage = [Str ''r1'' \<mapsto> [''load'', ''clean''], Str ''r2'' \<mapsto> [''load'']],
      errors = [], logs = []\<rparr>"

definition known_frame :: dataframe where
  "known_frame =
     \<lparr>nrows = 2,
      columns = [(''country'', [Str ''FR'', Str ''DE'']), (''row_id'', [Str ''c1'', Str ''c2''])]\<rparr>"

definition regrouped_frame :: dataframe where
  "regrouped_frame =
     \<lparr>nrows = 1, columns = [(''region'', [Str ''EU'']), (''row_id'', [Str ''EU''])]\<rparr>"

definition regroup :: transformation where
  "regroup df s = (Inr regrouped_frame, s)"

definition earlier_ledger :: metadata_manager where
  "earlier_ledger =
     \<lparr>lineage = [Str ''EU'' \<mapsto> [''by_region''],
                 Str ''c1'' \<mapsto> [''by_region'', ''by_country''],
                 Str ''c2'' \<mapsto> [''by_region'', ''by_country'']],
      errors = [], logs = []\<rparr>"

definition sample_uuid4 :: "nat \<Rightarrow> string" where
  "sample_uuid4 i = ''uuid-'' @ replicate (Suc i) (CHR ''x'')"

definition sample_engine :: engine where
  "sample_engine =
     \<lparr>groupby_agg =
        (\<lambda>df. Inr \<lparr>nrows = 1,
                    columns = [(''category'', [Str ''a'']), (''start_value'', [Num 100])]\<rparr>),
      groupby_row_ids = (\<lambda>df. Inr [ListC [Str ''r1'', Str ''r2'']]),
      groupby_size = (\<lambda>df. Inr [Num 2])\<rparr>"

definition aggregated_frame :: dataframe where
  "aggregated_frame =
     \<lparr>nrows = 1,
      columns = [(''category'', [Str ''a'']), (''start_value'', [Num 100]),
                 (''row_id'', [Str ''uuid-x'']),
                 (''source_row_ids'', [ListC [Str ''r1'', Str ''r2'']]),
                 (''contribution_counts'', [Num 2])]\<rparr>"

definition raw_frame :: dataframe where
  "raw_frame =
     \<lparr>nrows = 2,
      columns = [(''start_value'', [Num 100, Num 0]), (''end_value'', [Num 110, Num 20])]\<rparr>"

definition identified_frame :: dataframe where
  "identified_frame =
     \<lparr>nrows = 2,
      columns = [(''start_value'', [Num 100, Num 0]), (''end_value'', [Num 110, Num 20]),
                 (''row_id'', [Str ''uuid-x'', Str ''uuid-xx''])]\<rparr>"

definition always_fails_step :: transformation where
  "always_fails_step = manage_metadata ''always_fails'' 1 2 always_fails"

definition keep_step :: transformation where
  "keep_step = manage_metadata ''keep'' 3 4 keep"

definition identified_ledger :: metadata_manager where
  "identified_ledger =
     \<lparr>lineage = [Str ''uuid-x'' \<mapsto> [], Str ''uuid-xx'' \<mapsto> []], errors = [], logs = []\<rparr>"

section \<open>Expected error records\<close>


section \<open>The queries\<close>

lemma dd_get_keeps: "snd (dd_get k d m) = m"
  by (simp add: dd_get_def split: option.split)

text \<open>Subscripting, which \<^verbatim>\<open>update_lineage\<close> uses, does store an entry for a missing key.\<close>

lemma dd_getitem_inserts:
  "hashable k \<Longrightarrow> m k = None \<Longrightarrow> snd (dd_getitem k m) k = Some []"
  by (simp add: dd_getitem_def)

lemma get_lineage_keeps: "snd (get_lineage rid s) = s"
proof -
  obtain r m where dd: "dd_get rid [] (lineage s) = (r, m)"
    by (cases "dd_get rid [] (lineage s)")
  with dd_get_keeps [of rid "[]" "lineage s"] have "m = lineage s" by simp
  with dd show ?thesis by (simp add: get_lineage_def)
qed

lemma get_lineage_value:
  "hashable rid \<Longrightarrow>
   fst (get_lineage rid s) = Inr (case lineage s rid of None \<Rightarrow> [] | Some l \<Rightarrow> l)"
  by (simp add: get_lineage_def dd_get_def split: option.split)

text \<open>
  C10. \<^verbatim>\<open>get_lineage\<close>, \<^verbatim>\<open>get_errors\<close> and \<^verbatim>\<open>get_logs\<close> leave the manager as they
  found it: the lineage mapping, the error list and the log list after a query are the
  ones before it. \<^verbatim>\<open>get_lineage\<close> reads with \<^verbatim>\<open>dict.get\<close>, which stores nothing under
  a key that has no entry (subscripting the \<^verbatim>\<open>defaultdict\<close> would).
\<close>

theorem queries_leave_manager_unchanged:
  "snd (get_lineage rid s) = s \<and> snd (get_errors s) = s \<and> snd (get_logs s) = s"
  by (simp add: get_lineage_keeps get_errors_def get_logs_def)

lemma initialize_loop_other:
  "k \<notin> set ks \<Longrightarrow> initialize_loop ks m = (None, m') \<Longrightarrow> m' k = m k"
  by (induction ks arbitrary: m) (auto simp: dd_setitem_def split: if_splits)

lemma initialize_loop_ok:
  "initialize_loop ks m = (None, m') \<Longrightarrow> k \<in> set ks \<Longrightarrow> m' k = Some [] \<and> hashable k"
proof (induction ks arbitrary: m)
  case Nil
  then show ?case by simp
next
  case (Cons a ks)
  show ?case
  proof (cases "hashable a")
    case False
    with Cons.prems show ?thesis by (simp add: dd_setitem_def)
  next
    case True
    with Cons.prems have rest: "initialize_loop ks (m(a \<mapsto> [])) = (None, m')"
      by (simp add: dd_setitem_def)
    show ?thesis
    proof (cases "k \<in> set ks")
      case True
      with Cons.IH [OF rest] show ?thesis by simp
    next
      case False
      with Cons.prems have "k = a" by simp
      with False rest \<open>hashable a\<close> initialize_loop_other [OF False rest]
      show ?thesis by simp
    qed
  qed
qed

lemma initialize_entries:
  assumes "initialize df s = (None, s')"
    and "df_getitem df ''row_id'' = Inr ids"
    and "rid \<in> set ids"
  shows "lineage s' rid = Some [] \<and> hashable rid"
proof -
  obtain r m where l: "initialize_loop ids (lineage s) = (r, m)"
    by (cases "initialize_loop ids (lineage s)")
  with assms(1,2) have "r = None" and "s' = s\<lparr>lineage := m\<rparr>"
    by (auto simp: initialize_def)
  with l initialize_loop_ok [of ids "lineage s" m rid] assms(3) show ?thesis by simp
qed

text \<open>
  C9. When \<^verbatim>\<open>initialize\<close> has run on a dataset (its \<^verbatim>\<open>row_id\<close> column being \<open>ids\<close>),
  \<^verbatim>\<open>get_lineage\<close> returns the empty sequence for every identifier of the dataset. In any
  state of the manager, \<^verbatim>\<open>get_lineage\<close> returns the empty sequence for an identifier the
  ledger does not know, and it returns a sequence, never an exception, for every
  identifier that can be a dictionary key (a string, as the signature asks, or any other
  hashable value).
\<close>

theorem get_lineage_after_initialize:
  assumes "initialize df s = (None, s')" and "df_getitem df ''row_id'' = Inr ids"
  shows "(\<forall>rid \<in> set ids. get_lineage rid s' = (Inr [], s')) \<and>
         (\<forall>rid (t::metadata_manager).
             hashable rid \<and> lineage t rid = None \<longrightarrow> get_lineage rid t = (Inr [], t)) \<and>
         (\<forall>rid (t::metadata_manager). hashable rid \<longrightarrow> (\<exists>l. get_lineage rid t = (Inr l, t)))"
proof (intro conjI ballI allI impI)
  fix rid assume "rid \<in> set ids"
  with initialize_entries [OF assms] have "lineage s' rid = Some []" "hashable rid" by simp_all
  with get_lineage_value [of rid s'] get_lineage_keeps [of rid s']
  show "get_lineage rid s' = (Inr [], s')" by (simp add: prod_eq_iff)
next
  fix rid and t :: metadata_manager assume "hashable rid \<and> lineage t rid = None"
  with get_lineage_value [of rid t] get_lineage_keeps [of rid t]
  show "get_lineage rid t = (Inr [], t)" by (simp add: prod_eq_iff)
next
  fix rid and t :: metadata_manager assume "hashable rid"
  with get_lineage_value [of rid t] get_lineage_keeps [of rid t]
  show "\<exists>l. get_lineage rid t = (Inr l, t)" by (simp add: prod_eq_iff)
qed

lemma initialize_sample_frame:
  "initialize sample_frame MetadataManager =
     (None, \<lparr>lineage = [Str ''r1'' \<mapsto> [], Str ''r2'' \<mapsto> []], errors = [], logs = []\<rparr>)"
  by (simp add: initialize_def sample_frame_def MetadataManager_def df_getitem_def
      dd_setitem_def)

lemma row_ids_sample_frame: "df_getitem sample_frame ''row_id'' = Inr [Str ''r1'', Str ''r2'']"
  by (simp add: sample_frame_def df_getitem_def)

theorem get_lineage_after_initialize_witness:
  "get_lineage (Str ''r2'')
     \<lparr>lineage = [Str ''r1'' \<mapsto> [], Str ''r2'' \<mapsto> []], errors = [], logs = []\<rparr> =
     (Inr [], \<lparr>lineage = [Str ''r1'' \<mapsto> [], Str ''r2'' \<mapsto> []], errors = [], logs = []\<rparr>) \<and>
   get_lineage (Str ''r9'') MetadataManager = (Inr [], MetadataManager) \<and>
   (\<exists>l. get_lineage (Num 7) MetadataManager = (Inr l, MetadataManager))"
proof -
  note th = get_lineage_after_initialize [OF initialize_sample_frame row_ids_sample_frame]
  have a: "lineage MetadataManager (Str ''r9'') = None" by (simp add: MetadataManager_def)
  from th have "\<forall>rid \<in> set [Str ''r1'', Str ''r2'']. get_lineage rid
     \<lparr>lineage = [Str ''r1'' \<mapsto> [], Str ''r2'' \<mapsto> []], errors = [], logs = []\<rparr> =
     (Inr [], \<lparr>lineage = [Str ''r1'' \<mapsto> [], Str ''r2'' \<mapsto> []], errors = [], logs = []\<rparr>)"
    by blast
  moreover from th a have "get_lineage (Str ''r9'') MetadataManager = (Inr [], MetadataManager)"
    by simp
  moreover from th have "\<exists>l. get_lineage (Num 7) MetadataManager = (Inr l, MetadataManager)"
    by simp
  ultimately show ?thesis by simp
qed

section \<open>The dataset-level decorator\<close>

text \<open>
  C2. When the wrapped transformation raises, \<^verbatim>\<open>manage_metadata\<close> raises the same
  exception, and the manager it leaves is the one the transformation left with exactly
  one record appended to \<^verbatim>\<open>errors\<close>: subject \<^verbatim>\<open>"global"\<close>, the wrapped function's name,
  the exception's text. The lineage and the transformation log are untouched.
\<close>

theorem manage_metadata_failure:
  assumes "func df s = (Inl e, s1)"
  shows "manage_metadata name start_time now func df s =
           (Inl e, s1\<lparr>errors := errors s1 @
              [\<lparr>e_row_id = Str ''global'', e_transformation = name, e_error = str_exc e\<rparr>]\<rparr>)"
  using assms by (simp add: manage_metadata_def log_error_def)

theorem manage_metadata_failure_witness:
  "always_fails sample_frame MetadataManager =
     (Inl (PyError ''RuntimeError'' ''boom''), MetadataManager) \<and>
   manage_metadata ''always_fails'' 5 6 always_fails sample_frame MetadataManager =
     (Inl (PyError ''RuntimeError'' ''boom''),
      \<lparr>lineage = Map.empty,
       errors = [\<lparr>e_row_id = Str ''global'', e_transformation = ''always_fails'',
                  e_error = ''boom''\<rparr>],
       logs = []\<rparr>)"
proof -
  have h: "always_fails sample_frame MetadataManager =
     (Inl (PyError ''RuntimeError'' ''boom''), MetadataManager)"
    by (simp add: always_fails_def)
  from manage_metadata_failure
    [of always_fails sample_frame MetadataManager "PyError ''RuntimeError'' ''boom''"
      MetadataManager "''always_fails''" 5 6] h
  show ?thesis by (simp add: MetadataManager_def)
qed

section \<open>The row-level decorator\<close>






text \<open>A success passes through; the manager is not touched.\<close>

lemma handle_row_errors_success:
  assumes "func r = Inr v"
  shows "handle_row_errors on_error column_name fallback_value func_name func r s = (Inr v, s)"
  using assms by (simp add: handle_row_errors_def)

text \<open>A validation failure always leaves the wrapper as an exception, never as the fallback.\<close>

lemma handle_row_errors_validation_raises:
  assumes "func r = Inl e" and "is_validation e"
  shows "\<exists>e'. handle_row_errors on_error column_name fallback_value func_name func r s =
           (Inl e', s)"
  using assms by (cases e) (simp_all add: handle_row_errors_def split: list.split)

text \<open>
  A validation failure with a non-empty mapping ends in \<^verbatim>\<open>NameError\<close>; one with the empty
  mapping is raised again as a new validation failure with the empty mapping.
\<close>

lemma handle_row_errors_validation_nonempty:
  assumes "func r = Inl (ValidationError (item # items) txt)"
  shows "handle_row_errors on_error column_name fallback_value func_name func r s =
           (Inl (name_error ''context''), s)"
  using assms by (simp add: handle_row_errors_def)

lemma handle_row_errors_validation_empty:
  assumes "func r = Inl (ValidationError [] txt)"
  shows "handle_row_errors on_error column_name fallback_value func_name func r s =
           (Inl (ValidationError [] ''{}''), s)"
  using assms by (simp add: handle_row_errors_def)




text \<open>
  C4 fails on the code. The row-level function \<open>sample_validate\<close> raises a validation
  failure with the mapping \<^verbatim>\<open>{'age': 'Missing key: age'}\<close>; the wrapper raises
  \<^verbatim>\<open>NameError\<close> for the unbound name \<^verbatim>\<open>context\<close> instead of a validation failure with
  the augmented mapping.
\<close>

theorem handle_row_errors_validation_name_error:
  "handle_row_errors (Some log_error_callback) None NoneC ''sample_validate'' sample_validate
     row_a MetadataManager =
   (Inl (PyError ''NameError'' ''name 'context' is not defined''), MetadataManager)"
  by (simp add: handle_row_errors_def sample_validate_def row_a_def name_error_def quoted_def)




section \<open>Lineage written by the dataset-level decorator\<close>

text \<open>
  What the append loop leaves when every key can be hashed: each identifier of the column
  gets the transformation's name appended once per occurrence, on top of its earlier
  sequence or, for an identifier without an entry, on top of the empty one.
\<close>

lemma append_loop_step:
  assumes "hashable a"
  shows "append_loop (a # ks) t m =
           append_loop ks t (m(a \<mapsto> (case m a of None \<Rightarrow> [] | Some l \<Rightarrow> l) @ [t]))"
  using assms by (simp add: dd_getitem_def split: option.split)

lemma append_loop_result:
  assumes "\<forall>k \<in> set ks. hashable k"
  shows "fst (append_loop ks t m) = None \<and>
         (\<forall>k. snd (append_loop ks t m) k =
            (if k \<in> set ks
             then Some ((case m k of None \<Rightarrow> [] | Some l \<Rightarrow> l) @ replicate (count_list ks k) t)
             else m k))"
  using assms
proof (induction ks arbitrary: m)
  case Nil
  show ?case by simp
next
  case (Cons a ks)
  define old where "old = (case m a of None \<Rightarrow> [] | Some l \<Rightarrow> l)"
  define m2 where "m2 = m(a \<mapsto> old @ [t])"
  from Cons.prems have ha: "hashable a" and hks: "\<forall>k \<in> set ks. hashable k" by simp_all
  have step: "append_loop (a # ks) t m = append_loop ks t m2"
    unfolding m2_def old_def by (rule append_loop_step [OF ha])
  from Cons.IH [OF hks, of m2] have r: "fst (append_loop ks t m2) = None"
    and p: "\<And>k. snd (append_loop ks t m2) k =
            (if k \<in> set ks
             then Some ((case m2 k of None \<Rightarrow> [] | Some l \<Rightarrow> l) @ replicate (count_list ks k) t)
             else m2 k)"
    by simp_all
  have "snd (append_loop ks t m2) k =
            (if k \<in> set (a # ks)
             then Some ((case m k of None \<Rightarrow> [] | Some l \<Rightarrow> l) @
                        replicate (count_list (a # ks) k) t)
             else m k)" for k
  proof (cases "k = a")
    case True
    then have "m2 k = Some (old @ [t])" by (simp add: m2_def)
    with True p [of k] show ?thesis
      by (simp add: old_def replicate_append_same)
  next
    case False
    then have "m2 k = m k" by (simp add: m2_def)
    with False p [of k] show ?thesis by simp
  qed
  with r step show ?case by simp
qed

lemma update_lineage_result:
  assumes "df_getitem df ''row_id'' = Inr ids" and "\<forall>k \<in> set ids. hashable k"
  shows "update_lineage df t None s = (None, s\<lparr>lineage := snd (append_loop ids t (lineage s))\<rparr>)"
proof -
  obtain r m where l: "append_loop ids t (lineage s) = (r, m)"
    by (cases "append_loop ids t (lineage s)")
  with append_loop_result [OF assms(2), of t "lineage s"] have "r = None" by simp
  with l assms(1) show ?thesis by (simp add: update_lineage_def)
qed

lemma manage_metadata_success:
  assumes "func df s = (Inr result, s1)" and "df_getitem result ''row_id'' = Inr ids"
    and "\<forall>k \<in> set ids. hashable k"
  shows "manage_metadata name start_time now func df s =
     (Inr result,
      s1\<lparr>lineage := snd (append_loop ids name (lineage s1)),
         logs := logs s1 @ [\<lparr>l_transformation = name, l_time = now - start_time,
                              l_details = [(''row_count'', Num (int (nrows result)))]\<rparr>]\<rparr>)"
  using assms(1) update_lineage_result [OF assms(2,3), of name s1]
  by (simp add: manage_metadata_def log_transformation_def)

lemma manage_metadata_lineage:
  assumes "func df s = (Inr result, s1)" and "df_getitem result ''row_id'' = Inr ids"
    and "\<forall>k \<in> set ids. hashable k"
  shows "fst (manage_metadata name start_time now func df s) = Inr result \<and>
     lineage (snd (manage_metadata name start_time now func df s)) k =
       (if k \<in> set ids
        then Some ((case lineage s1 k of None \<Rightarrow> [] | Some l \<Rightarrow> l) @ replicate (count_list ids k) name)
        else lineage s1 k)"
  using manage_metadata_success [where func = func and df = df and s = s, OF assms,
      of name start_time now]
    append_loop_result [OF assms(3), of name "lineage s1"]
  by simp

lemma count_list_distinct: "distinct xs \<Longrightarrow> k \<in> set xs \<Longrightarrow> count_list xs k = 1"
  by (induction xs) auto

text \<open>
  C7. Let a transformation run under \<^verbatim>\<open>manage_metadata\<close> succeed, its body leaving the
  lineage mapping alone. Let it be 1:1: the result carries the same identifiers as the
  input, each once. Let the ledger hold an entry for each of them before the step. Then
  the step returns the result, every identifier of the dataset has its sequence extended
  by exactly one entry, the wrapped function's name, every other entry is unchanged, and
  the ledger has the same identifiers after the step as before.
\<close>

theorem one_to_one_step_lineage:
  assumes run: "func df s = (Inr result, s1)" and frame: "lineage s1 = lineage s"
    and ids_in: "df_getitem df ''row_id'' = Inr ids_in"
    and ids_out: "df_getitem result ''row_id'' = Inr ids_out"
    and same: "set ids_out = set ids_in" and once: "distinct ids_out"
    and keys: "\<forall>k \<in> set ids_in. hashable k"
    and known: "set ids_in \<subseteq> dom (lineage s)"
  shows "fst (manage_metadata name start_time now func df s) = Inr result \<and>
     (\<forall>k \<in> set ids_in. \<exists>l. lineage s k = Some l \<and>
        lineage (snd (manage_metadata name start_time now func df s)) k = Some (l @ [name])) \<and>
     (\<forall>k. k \<notin> set ids_in \<longrightarrow>
        lineage (snd (manage_metadata name start_time now func df s)) k = lineage s k) \<and>
     dom (lineage (snd (manage_metadata name start_time now func df s))) = dom (lineage s)"
proof -
  from keys same have h: "\<forall>k \<in> set ids_out. hashable k" by simp
  note L = manage_metadata_lineage [where func = func and df = df and s = s,
      OF run ids_out h, of name start_time now]
  have one: "k \<in> set ids_out \<Longrightarrow> count_list ids_out k = 1" for k
    using once by (simp add: count_list_distinct)
  have a: "\<forall>k \<in> set ids_in. \<exists>l. lineage s k = Some l \<and>
        lineage (snd (manage_metadata name start_time now func df s)) k = Some (l @ [name])"
  proof
    fix k assume k: "k \<in> set ids_in"
    with known obtain l where l: "lineage s k = Some l" by auto
    from k same have "k \<in> set ids_out" by simp
    with L [of k] one [of k] l frame show "\<exists>l. lineage s k = Some l \<and>
        lineage (snd (manage_metadata name start_time now func df s)) k = Some (l @ [name])"
      by simp
  qed
  have b: "\<forall>k. k \<notin> set ids_in \<longrightarrow>
        lineage (snd (manage_metadata name start_time now func df s)) k = lineage s k"
    using L same frame by simp
  have c: "dom (lineage (snd (manage_metadata name start_time now func df s))) = dom (lineage s)"
  proof (rule set_eqI)
    fix k
    show "k \<in> dom (lineage (snd (manage_metadata name start_time now func df s))) \<longleftrightarrow> k \<in> dom (lineage s)"
    proof (cases "k \<in> set ids_in")
      case True
      with a known show ?thesis by (auto simp: dom_def)
    next
      case False
      with b show ?thesis by (simp add: dom_def)
    qed
  qed
  from L a b c show ?thesis by simp
qed

theorem one_to_one_step_lineage_witness:
  "fst (manage_metadata ''calculate_growth_rate'' 1 2 keep sample_frame loaded_ledger) = Inr sample_frame \<and>
   lineage (snd (manage_metadata ''calculate_growth_rate'' 1 2 keep sample_frame loaded_ledger)) (Str ''r1'') =
     Some [''load'', ''clean'', ''calculate_growth_rate''] \<and>
   lineage (snd (manage_metadata ''calculate_growth_rate'' 1 2 keep sample_frame loaded_ledger)) (Str ''r2'') =
     Some [''load'', ''calculate_growth_rate''] \<and>
   dom (lineage (snd (manage_metadata ''calculate_growth_rate'' 1 2 keep sample_frame loaded_ledger))) =
     {Str ''r1'', Str ''r2''}"
proof -
  have run: "keep sample_frame loaded_ledger = (Inr sample_frame, loaded_ledger)"
    by (simp add: keep_def)
  have ids: "df_getitem sample_frame ''row_id'' = Inr [Str ''r1'', Str ''r2'']"
    by (simp add: df_getitem_def sample_frame_def)
  have keys: "\<forall>k \<in> set [Str ''r1'', Str ''r2'']. hashable k" by simp
  have known: "set [Str ''r1'', Str ''r2''] \<subseteq> dom (lineage loaded_ledger)"
    by (simp add: loaded_ledger_def)
  have d: "distinct [Str ''r1'', Str ''r2'']" by simp
  note th = one_to_one_step_lineage [where func = keep and df = sample_frame and s = loaded_ledger
      and name = "''calculate_growth_rate''" and start_time = 1 and now = 2,
      OF run refl ids ids refl d keys known]
  have l1: "lineage loaded_ledger (Str ''r1'') = Some [''load'', ''clean'']"
    and l2: "lineage loaded_ledger (Str ''r2'') = Some [''load'']"
    and dm: "dom (lineage loaded_ledger) = {Str ''r1'', Str ''r2''}"
    by (auto simp: loaded_ledger_def)
  from th have "\<forall>k \<in> set [Str ''r1'', Str ''r2'']. \<exists>l. lineage loaded_ledger k = Some l \<and>
        lineage (snd (manage_metadata ''calculate_growth_rate'' 1 2 keep sample_frame loaded_ledger)) k =
          Some (l @ [''calculate_growth_rate''])" by blast
  with l1 l2 have "lineage (snd (manage_metadata ''calculate_growth_rate'' 1 2 keep sample_frame loaded_ledger)) (Str ''r1'') =
     Some [''load'', ''clean'', ''calculate_growth_rate''] \<and>
   lineage (snd (manage_metadata ''calculate_growth_rate'' 1 2 keep sample_frame loaded_ledger)) (Str ''r2'') =
     Some [''load'', ''calculate_growth_rate'']" by simp
  with th dm show ?thesis by simp
qed

lemma mint_one: "mint_ids sample_uuid4 (Suc 0) = [Str ''uuid-x'']"
  by (simp add: mint_ids_def sample_uuid4_def)

lemma aggregate_sample: "aggregate_body sample_engine sample_uuid4 sample_frame = Inr aggregated_frame"
  by (simp add: aggregate_body_def sample_engine_def df_setitem_def aggregated_frame_def mint_one)

text \<open>
  C6, as the code has it. \<^verbatim>\<open>manage_metadata\<close> calls \<^verbatim>\<open>update_lineage\<close> without
  \<^verbatim>\<open>new_rows\<close>, so no sequence is ever reset; an identifier of the result ends with the
  one-element sequence exactly when the ledger had no entry for it. Let a transformation
  run under \<^verbatim>\<open>manage_metadata\<close> succeed, its body leaving the lineage mapping alone, and
  let the identifiers of the result be pairwise distinct. Then every identifier of the
  result that has no entry in the ledger before the step (a freshly minted one, as in
  the aggregation) ends the step with the sequence that holds the transformation's name
  and nothing else, whatever the sequences of the other identifiers are.
\<close>

theorem fresh_identifier_lineage:
  assumes run: "func df s = (Inr result, s1)" and frame: "lineage s1 = lineage s"
    and ids_out: "df_getitem result ''row_id'' = Inr ids_out"
    and keys: "\<forall>k \<in> set ids_out. hashable k" and once: "distinct ids_out"
    and new: "k \<in> set ids_out" and fresh: "lineage s k = None"
  shows "fst (manage_metadata name start_time now func df s) = Inr result \<and>
     lineage (snd (manage_metadata name start_time now func df s)) k = Some [name]"
  using manage_metadata_lineage [where func = func and df = df and s = s,
      OF run ids_out keys, of name start_time now k]
    count_list_distinct [OF once new] new fresh frame
  by simp

theorem fresh_identifier_lineage_witness:
  "fst (aggregate_with_details sample_engine sample_uuid4 3 4 sample_frame loaded_ledger) = Inr aggregated_frame \<and>
   lineage (snd (aggregate_with_details sample_engine sample_uuid4 3 4 sample_frame loaded_ledger)) (Str ''uuid-x'') =
     Some [''aggregate_with_details'']"
proof -
  let ?f = "\<lambda>df (s::metadata_manager). (aggregate_body sample_engine sample_uuid4 df, s)"
  have run: "?f sample_frame loaded_ledger = (Inr aggregated_frame, loaded_ledger)"
    by (simp add: aggregate_sample)
  have ids: "df_getitem aggregated_frame ''row_id'' = Inr [Str ''uuid-x'']"
    by (simp add: df_getitem_def aggregated_frame_def)
  have keys: "\<forall>k \<in> set [Str ''uuid-x'']. hashable k" by simp
  have fresh: "lineage loaded_ledger (Str ''uuid-x'') = None" by (simp add: loaded_ledger_def)
  from fresh_identifier_lineage [where func = ?f and df = sample_frame and s = loaded_ledger
      and k = "Str ''uuid-x''" and name = "''aggregate_with_details''" and start_time = 3 and now = 4,
      OF run refl ids keys _ _ fresh]
  show ?thesis by (simp add: aggregate_with_details_def)
qed

text \<open>
  C6, as stated, fails. The ledger knows \<^verbatim>\<open>EU\<close> from an earlier step; the input dataset
  holds \<^verbatim>\<open>c1\<close> and \<^verbatim>\<open>c2\<close>; the transformation returns one row identified \<^verbatim>\<open>EU\<close>, which
  is absent from the input. Its sequence ends with two entries.
\<close>

theorem new_identifier_lineage_counterexample:
  "df_getitem known_frame ''row_id'' = Inr [Str ''c1'', Str ''c2''] \<and>
   df_getitem regrouped_frame ''row_id'' = Inr [Str ''EU''] \<and>
   fst (manage_metadata ''regroup'' 7 8 regroup known_frame earlier_ledger) = Inr regrouped_frame \<and>
   lineage (snd (manage_metadata ''regroup'' 7 8 regroup known_frame earlier_ledger)) (Str ''EU'') =
     Some [''by_region'', ''regroup'']"
  by (simp add: manage_metadata_def regroup_def update_lineage_def df_getitem_def known_frame_def
      regrouped_frame_def dd_getitem_def earlier_ledger_def log_transformation_def)

section \<open>Row identity assignment\<close>

lemma update_absent: "map_of al k = None \<Longrightarrow> AList.update k v al = al @ [(k, v)]"
  by (induction al) (auto split: if_splits)

lemma mint_ids_length: "length (mint_ids uuid4 n) = n"
  by (simp add: mint_ids_def)

lemma mint_ids_nth: "i < n \<Longrightarrow> mint_ids uuid4 n ! i = Str (uuid4 i)"
  by (simp add: mint_ids_def)

lemma mint_ids_distinct: "inj_on uuid4 {..<n} \<Longrightarrow> distinct (mint_ids uuid4 n)"
  by (auto simp: mint_ids_def distinct_map inj_on_def)

lemma mint_ids_hashable: "\<forall>k \<in> set (mint_ids uuid4 n). hashable k"
  by (auto simp: mint_ids_def)

lemma mint_ids_set: "set (mint_ids uuid4 n) = (\<lambda>i. Str (uuid4 i)) ` {..<n}"
  by (auto simp: mint_ids_def)

lemma add_row_id_nrows: "nrows (add_row_id uuid4 df) = nrows df"
  by (simp add: add_row_id_def df_setitem_def)

lemma add_row_id_row_ids:
  "df_getitem (add_row_id uuid4 df) ''row_id'' = Inr (mint_ids uuid4 (nrows df))"
  by (simp add: add_row_id_def df_setitem_def df_getitem_def update_conv)

lemma add_row_id_columns:
  "map_of (columns df) ''row_id'' = None \<Longrightarrow>
   columns (add_row_id uuid4 df) = columns df @ [(''row_id'', mint_ids uuid4 (nrows df))]"
  by (simp add: add_row_id_def df_setitem_def update_absent)

lemma add_row_id_obj_eq:
  "a < length h \<Longrightarrow>
   add_row_id_obj uuid4 a h = (length h, h @ [add_row_id uuid4 (h ! a)])"
  by (simp add: add_row_id_obj_def copy_obj_def setitem_obj_def add_row_id_def nth_append)

text \<open>
  C8. Let \<open>a\<close> be the address of a table without a \<^verbatim>\<open>row_id\<close> column, and let the
  identifiers \<^verbatim>\<open>uuid4\<close> returns during the call be pairwise distinct (what UUIDs are
  relied on for). \<^verbatim>\<open>add_row_id\<close> returns the address of a new table; every table that
  was in the store, the input among them, is as it was. The new table has as many rows as
  the input and the input's columns, unchanged and in their order, followed by the column
  \<^verbatim>\<open>row_id\<close>, which holds one identifier per row, the \<open>i\<close>-th minted one in row \<open>i\<close>, all
  pairwise distinct.
\<close>

theorem add_row_id_contract:
  assumes valid: "a < length h"
    and nocol: "map_of (columns (h ! a)) ''row_id'' = None"
    and uniq: "inj_on uuid4 {..<nrows (h ! a)}"
  shows "fst (add_row_id_obj uuid4 a h) \<noteq> a \<and>
         fst (add_row_id_obj uuid4 a h) < length (snd (add_row_id_obj uuid4 a h)) \<and>
         (\<forall>b < length h. snd (add_row_id_obj uuid4 a h) ! b = h ! b) \<and>
         snd (add_row_id_obj uuid4 a h) ! fst (add_row_id_obj uuid4 a h) = add_row_id uuid4 (h ! a) \<and>
         nrows (add_row_id uuid4 (h ! a)) = nrows (h ! a) \<and>
         columns (add_row_id uuid4 (h ! a)) =
           columns (h ! a) @ [(''row_id'', mint_ids uuid4 (nrows (h ! a)))] \<and>
         length (mint_ids uuid4 (nrows (h ! a))) = nrows (h ! a) \<and>
         (\<forall>i < nrows (h ! a). mint_ids uuid4 (nrows (h ! a)) ! i = Str (uuid4 i)) \<and>
         distinct (mint_ids uuid4 (nrows (h ! a)))"
  using valid add_row_id_obj_eq [OF valid, of uuid4] add_row_id_columns [OF nocol, of uuid4]
    mint_ids_distinct [OF uniq]
  by (simp add: nth_append add_row_id_nrows mint_ids_length mint_ids_nth)

lemma sample_uuid4_inj: "inj_on sample_uuid4 A"
  by (auto simp: inj_on_def sample_uuid4_def)

lemma mint_two: "mint_ids sample_uuid4 2 = [Str ''uuid-x'', Str ''uuid-xx'']"
  by (simp add: mint_ids_def sample_uuid4_def upt_rec numeral_2_eq_2)

lemma add_row_id_raw: "add_row_id sample_uuid4 raw_frame = identified_frame"
  by (simp add: add_row_id_def raw_frame_def identified_frame_def df_setitem_def mint_two)

theorem add_row_id_contract_witness:
  "add_row_id_obj sample_uuid4 0 [raw_frame] = (1, [raw_frame, identified_frame]) \<and>
   distinct [Str ''uuid-x'', Str ''uuid-xx'']"
proof -
  have valid: "0 < length [raw_frame]" by simp
  have nocol: "map_of (columns ([raw_frame] ! 0)) ''row_id'' = None"
    by (simp add: raw_frame_def)
  note th = add_row_id_contract [OF valid nocol sample_uuid4_inj]
  have n: "nrows raw_frame = 2" by (simp add: raw_frame_def)
  from th have "distinct (mint_ids sample_uuid4 (nrows raw_frame))" by simp
  with n mint_two have d: "distinct [Str ''uuid-x'', Str ''uuid-xx'']" by simp
  from th have "snd (add_row_id_obj sample_uuid4 0 [raw_frame]) ! fst (add_row_id_obj sample_uuid4 0 [raw_frame]) = add_row_id sample_uuid4 raw_frame" by simp
  with d add_row_id_obj_eq [OF valid, of sample_uuid4] show ?thesis
    by (simp add: add_row_id_raw)
qed

section \<open>The pipeline\<close>

lemma initialize_loop_result:
  assumes "\<forall>k \<in> set ks. hashable k"
  shows "fst (initialize_loop ks m) = None \<and>
         (\<forall>k. snd (initialize_loop ks m) k = (if k \<in> set ks then Some [] else m k))"
  using assms
proof (induction ks arbitrary: m)
  case Nil
  show ?case by simp
next
  case (Cons a ks)
  define m2 where "m2 = m(a \<mapsto> [])"
  from Cons.prems have ha: "hashable a" and hks: "\<forall>k \<in> set ks. hashable k" by simp_all
  from ha have step: "initialize_loop (a # ks) m = initialize_loop ks m2"
    by (simp add: dd_setitem_def m2_def)
  from Cons.IH [OF hks, of m2] have r: "fst (initialize_loop ks m2) = None"
    and p: "\<And>k. snd (initialize_loop ks m2) k = (if k \<in> set ks then Some [] else m2 k)"
    by simp_all
  have "snd (initialize_loop ks m2) k = (if k \<in> set (a # ks) then Some [] else m k)" for k
    using p [of k] by (simp add: m2_def)
  with r step show ?case by simp
qed

lemma initialize_identified:
  "fst (initialize (add_row_id uuid4 df) s) = None \<and>
   (\<forall>k. lineage (snd (initialize (add_row_id uuid4 df) s)) k =
      (if k \<in> set (mint_ids uuid4 (nrows df)) then Some [] else lineage s k)) \<and>
   errors (snd (initialize (add_row_id uuid4 df) s)) = errors s \<and>
   logs (snd (initialize (add_row_id uuid4 df) s)) = logs s"
proof -
  obtain r m where l: "initialize_loop (mint_ids uuid4 (nrows df)) (lineage s) = (r, m)"
    by (cases "initialize_loop (mint_ids uuid4 (nrows df)) (lineage s)")
  with initialize_loop_result [OF mint_ids_hashable, of uuid4 "nrows df" "lineage s"]
  have "r = None" and "\<forall>k. m k = (if k \<in> set (mint_ids uuid4 (nrows df)) then Some [] else lineage s k)"
    by simp_all
  with l show ?thesis by (simp add: initialize_def add_row_id_row_ids)
qed

lemma pipeline_loop_append:
  "pipeline_loop (pre @ post) df s =
     (case pipeline_loop pre df s of
        (Inl e, s') \<Rightarrow> (Inl e, s')
      | (Inr df', s') \<Rightarrow> pipeline_loop post df' s')"
  by (induction pre arbitrary: df s) (auto split: prod.split sum.split)

lemma build_pipeline_append:
  "build_pipeline (pre @ post) uuid4 df s =
     (case build_pipeline pre uuid4 df s of
        (Inl e, s') \<Rightarrow> (Inl e, s')
      | (Inr df', s') \<Rightarrow> pipeline_loop post df' s')"
proof -
  obtain r s0 where i: "initialize (add_row_id uuid4 df) s = (r, s0)"
    by (cases "initialize (add_row_id uuid4 df) s")
  with initialize_identified [of uuid4 df s] have "r = None" by simp
  with i show ?thesis by (simp add: build_pipeline_def pipeline_loop_append)
qed

text \<open>
  C3. The callable \<^verbatim>\<open>build_pipeline\<close> returns, for the list \<open>pre\<close> of transformations.
  The dataset \<^verbatim>\<open>add_row_id\<close> returns has the column \<^verbatim>\<open>row_id\<close> with the minted
  identifiers. Initialising the ledger against this dataset never raises and gives every
  minted identifier the empty sequence. With no transformation the pipeline returns the
  identified dataset and the initialised manager. When the pipeline of \<open>pre\<close> returns a
  dataset \<open>d\<close> and leaves the manager \<open>s1\<close>, the pipeline of \<open>pre\<close> followed by \<open>t\<close> is
  \<open>t\<close> applied to \<open>d\<close> and \<open>s1\<close>: its result is returned, its exception raised. When the
  pipeline of \<open>pre\<close> raises, the pipeline of \<open>pre\<close> followed by any further
  transformations raises the same exception and leaves the same manager: none of the
  later ones is applied.
\<close>

theorem build_pipeline_runs:
  "df_getitem (add_row_id uuid4 df) ''row_id'' = Inr (mint_ids uuid4 (nrows df)) \<and>
   fst (initialize (add_row_id uuid4 df) s) = None \<and>
   (\<forall>i < nrows df. lineage (snd (initialize (add_row_id uuid4 df) s)) (Str (uuid4 i)) = Some []) \<and>
   build_pipeline [] uuid4 df s =
     (Inr (add_row_id uuid4 df), snd (initialize (add_row_id uuid4 df) s)) \<and>
   (\<forall>d s1. build_pipeline pre uuid4 df s = (Inr d, s1) \<longrightarrow>
      build_pipeline (pre @ [t]) uuid4 df s = t d s1) \<and>
   (\<forall>e s1. build_pipeline pre uuid4 df s = (Inl e, s1) \<longrightarrow>
      build_pipeline (pre @ post) uuid4 df s = (Inl e, s1))"
proof (intro conjI allI impI)
  show "df_getitem (add_row_id uuid4 df) ''row_id'' = Inr (mint_ids uuid4 (nrows df))"
    by (rule add_row_id_row_ids)
next
  show "fst (initialize (add_row_id uuid4 df) s) = None"
    using initialize_identified [of uuid4 df s] by simp
next
  fix i assume "i < nrows df"
  then have "Str (uuid4 i) \<in> set (mint_ids uuid4 (nrows df))"
    by (auto simp: mint_ids_set)
  with initialize_identified [of uuid4 df s]
  show "lineage (snd (initialize (add_row_id uuid4 df) s)) (Str (uuid4 i)) = Some []"
    by simp
next
  obtain r s0 where i: "initialize (add_row_id uuid4 df) s = (r, s0)"
    by (cases "initialize (add_row_id uuid4 df) s")
  with initialize_identified [of uuid4 df s] have "r = None" by simp
  with i show "build_pipeline [] uuid4 df s =
     (Inr (add_row_id uuid4 df), snd (initialize (add_row_id uuid4 df) s))"
    by (simp add: build_pipeline_def)
next
  fix d s1 assume "build_pipeline pre uuid4 df s = (Inr d, s1)"
  then show "build_pipeline (pre @ [t]) uuid4 df s = t d s1"
    by (simp add: build_pipeline_append split: prod.split sum.split)
next
  fix e s1 assume "build_pipeline pre uuid4 df s = (Inl e, s1)"
  then show "build_pipeline (pre @ post) uuid4 df s = (Inl e, s1)"
    by (simp add: build_pipeline_append)
qed

lemma initialize_identified_frame:
  "initialize identified_frame MetadataManager = (None, identified_ledger)"
  by (simp add: initialize_def identified_frame_def MetadataManager_def df_getitem_def
      dd_setitem_def identified_ledger_def)

theorem build_pipeline_runs_witness:
  "build_pipeline [] sample_uuid4 raw_frame MetadataManager =
     (Inr identified_frame, identified_ledger) \<and>
   build_pipeline [keep_step] sample_uuid4 raw_frame MetadataManager =
     keep_step identified_frame identified_ledger \<and>
   fst (keep_step identified_frame identified_ledger) = Inr identified_frame \<and>
   lineage (snd (keep_step identified_frame identified_ledger)) (Str ''uuid-xx'') = Some [''keep''] \<and>
   build_pipeline [always_fails_step] sample_uuid4 raw_frame MetadataManager =
     (Inl (PyError ''RuntimeError'' ''boom''),
      identified_ledger\<lparr>errors :=
        [\<lparr>e_row_id = Str ''global'', e_transformation = ''always_fails'', e_error = ''boom''\<rparr>]\<rparr>) \<and>
   build_pipeline [always_fails_step, keep_step] sample_uuid4 raw_frame MetadataManager =
     (Inl (PyError ''RuntimeError'' ''boom''),
      identified_ledger\<lparr>errors :=
        [\<lparr>e_row_id = Str ''global'', e_transformation = ''always_fails'', e_error = ''boom''\<rparr>]\<rparr>)"
proof -
  note th1 = build_pipeline_runs [of sample_uuid4 raw_frame MetadataManager "[]" always_fails_step "[]"]
  note th2 = build_pipeline_runs [of sample_uuid4 raw_frame MetadataManager "[always_fails_step]" keep_step "[keep_step]"]
  note th3 = build_pipeline_runs [of sample_uuid4 raw_frame MetadataManager "[]" keep_step "[]"]
  from th1 have start: "build_pipeline [] sample_uuid4 raw_frame MetadataManager =
     (Inr identified_frame, identified_ledger)"
    by (simp add: add_row_id_raw initialize_identified_frame)
  have bad: "always_fails_step identified_frame identified_ledger =
     (Inl (PyError ''RuntimeError'' ''boom''),
      identified_ledger\<lparr>errors :=
        [\<lparr>e_row_id = Str ''global'', e_transformation = ''always_fails'', e_error = ''boom''\<rparr>]\<rparr>)"
    by (simp add: always_fails_step_def manage_metadata_def always_fails_def log_error_def
        identified_ledger_def)
  from th1 start have one: "build_pipeline [always_fails_step] sample_uuid4 raw_frame MetadataManager =
     always_fails_step identified_frame identified_ledger" by simp
  from th3 start have ok: "build_pipeline [keep_step] sample_uuid4 raw_frame MetadataManager =
     keep_step identified_frame identified_ledger" by simp
  from th2 one bad have two: "build_pipeline [always_fails_step, keep_step] sample_uuid4 raw_frame MetadataManager =
     (Inl (PyError ''RuntimeError'' ''boom''),
      identified_ledger\<lparr>errors :=
        [\<lparr>e_row_id = Str ''global'', e_transformation = ''always_fails'', e_error = ''boom''\<rparr>]\<rparr>)"
    by simp
  have k: "fst (keep_step identified_frame identified_ledger) = Inr identified_frame \<and>
   lineage (snd (keep_step identified_frame identified_ledger)) (Str ''uuid-xx'') = Some [''keep'']"
    by (simp add: keep_step_def manage_metadata_def keep_def update_lineage_def df_getitem_def
        identified_frame_def dd_getitem_def identified_ledger_def log_transformation_def)
  from start ok k one bad two show ?thesis by simp
qed

end
